theory Spec2Isabelle
  imports Complex_Main "HOL-Library.AList" "HOL-Library.Multiset" "HOL-Library.Product_Lexorder"
begin

section \<open>Server: session registry, combat resolution, round lifecycle\<close>

text \<open>
  Shallow embedding of \<^verbatim>\<open>server/index.js\<close>.

  \<^item> JavaScript numbers are doubles. Hit points, damage, kill and death counts are
    modelled as \<open>int\<close> (the client sends damage 1 or 3), coordinates as \<open>real\<close>.
  \<^item> The \<^verbatim>\<open>players\<close> object is an association list in insertion order (the order
    \<^verbatim>\<open>Object.entries\<close> enumerates string keys) from connection ids to object
    references; the session objects live in a store \<open>heap\<close>, because the respawn
    callback keeps the reference \<^verbatim>\<open>victim\<close> it captured at the time of the kill.
    Keys are connection ids; property names inherited from \<^verbatim>\<open>Object.prototype\<close>
    are outside the model.
  \<^item> Event payloads are records with the fields the handler destructures; a field the
    handler defaults with \<^verbatim>\<open>||\<close> or \<^verbatim>\<open>??\<close> is an \<open>option\<close>
    (\<open>None\<close> for \<^verbatim>\<open>undefined\<close>/\<^verbatim>\<open>null\<close>).
  \<^item> \<^verbatim>\<open>Math.random()\<close> reads the next element of a sequence \<open>random\<close> held in
    the state; \<open>drawn\<close> counts the draws made so far.
  \<^item> \<^verbatim>\<open>setTimeout\<close> appends the callback, with its delay, to \<open>timers\<close>;
    \<^verbatim>\<open>emit\<close> appends the message, with its audience, to \<open>outbox\<close>.
    \<^verbatim>\<open>console.log\<close> is left out.
\<close>

type_synonym conn_id = string
type_synonym ref = nat

definition MAX_HP :: int where "MAX_HP = 3"
definition KILLS_TO_WIN :: int where "KILLS_TO_WIN = 20"
definition RESPAWN_DELAY_MS :: nat where "RESPAWN_DELAY_MS = 5000"
definition WIN_DISPLAY_MS :: nat where "WIN_DISPLAY_MS = 6000"

record player =
  px :: real
  py :: real
  pz :: real
  qx :: real
  qy :: real
  qz :: real
  qw :: real
  name :: string
  hp :: int
  kills :: int
  deaths :: int
  hatType :: string
  hatColor :: int
  furColor :: int
  coatColor :: int

record join_data =
  join_name :: "string option"
  join_hatType :: "string option"
  join_hatColor :: "int option"
  join_furColor :: "int option"
  join_coatColor :: "int option"

record move_data =
  mv_x :: real
  mv_y :: real
  mv_z :: real
  mv_qx :: real
  mv_qy :: real
  mv_qz :: real
  mv_qw :: real
  meshQx :: "real option"
  meshQy :: "real option"
  meshQz :: "real option"
  meshQw :: "real option"

type_synonym vec3 = "real \<times> real \<times> real"

record shoot_data =
  origin :: vec3
  target :: vec3

record hit_data =
  victimId :: conn_id
  damage :: int

record score_entry =
  se_id :: conn_id
  se_name :: string
  se_kills :: int
  se_deaths :: int

record moved_msg =
  mm_id :: conn_id
  mm_x :: real
  mm_y :: real
  mm_z :: real
  mm_qx :: real
  mm_qy :: real
  mm_qz :: real
  mm_qw :: real
  mm_meshQx :: real
  mm_meshQy :: real
  mm_meshQz :: real
  mm_meshQw :: real

datatype audience = ToAll | ToOthers conn_id | ToSender conn_id

datatype message =
    CurrentPlayers "(conn_id \<times> player) list"
  | PlayerJoined conn_id player
  | PlayerMoved moved_msg
  | PlayerShot conn_id vec3 vec3
  | PlayerDamaged conn_id int conn_id
  | PlayerDied conn_id conn_id string string
  | ScoreboardUpdate "score_entry list"
  | PlayerRespawn conn_id real real real int
  | PlayerLeft conn_id
  | GameWon conn_id string int
  | GameReset

datatype timer_action = RunResetGame | RunRespawn conn_id ref

record server =
  players :: "(conn_id \<times> ref) list"
  heap :: "ref \<Rightarrow> player"
  next_ref :: ref
  gameInProgress :: bool
  timers :: "(nat \<times> timer_action) list"
  outbox :: "(audience \<times> message) list"
  random :: "nat \<Rightarrow> real"
  drawn :: nat

definition lookup :: "server \<Rightarrow> conn_id \<Rightarrow> ref option" where
  "lookup s k = map_of (players s) k"

definition session :: "server \<Rightarrow> conn_id \<Rightarrow> player option" where
  "session s k = map_option (heap s) (lookup s k)"

definition modify :: "ref \<Rightarrow> (player \<Rightarrow> player) \<Rightarrow> server \<Rightarrow> server" where
  "modify r f s = s\<lparr>heap := (heap s)(r := f (heap s r))\<rparr>"

definition emit :: "audience \<Rightarrow> message \<Rightarrow> server \<Rightarrow> server" where
  "emit a m s = s\<lparr>outbox := outbox s @ [(a, m)]\<rparr>"

definition setTimeout :: "timer_action \<Rightarrow> nat \<Rightarrow> server \<Rightarrow> server" where
  "setTimeout cb ms s = s\<lparr>timers := timers s @ [(ms, cb)]\<rparr>"

definition Math_random :: "server \<Rightarrow> real \<times> server" where
  "Math_random s = (random s (drawn s), s\<lparr>drawn := Suc (drawn s)\<rparr>)"

text \<open>\<^verbatim>\<open>v || d\<close> on a string: the default replaces \<^verbatim>\<open>undefined\<close> and the empty string.\<close>

definition or_default :: "string option \<Rightarrow> string \<Rightarrow> string" where
  "or_default v d = (case v of None \<Rightarrow> d | Some t \<Rightarrow> if t = [] then d else t)"

text \<open>\<^verbatim>\<open>v ?? d\<close>: the default replaces \<^verbatim>\<open>undefined\<close> and \<^verbatim>\<open>null\<close> only.\<close>

definition nullish :: "'a option \<Rightarrow> 'a \<Rightarrow> 'a" where
  "nullish v d = (case v of None \<Rightarrow> d | Some t \<Rightarrow> t)"

subsection \<open>Scoreboard\<close>

text \<open>The comparator \<^verbatim>\<open>(a, b) => b.kills - a.kills || a.deaths - b.deaths\<close>.\<close>

definition compare_scores :: "score_entry \<Rightarrow> score_entry \<Rightarrow> int" where
  "compare_scores a b =
     (if se_kills b - se_kills a \<noteq> 0 then se_kills b - se_kills a
      else se_deaths a - se_deaths b)"

text \<open>
  \<^verbatim>\<open>Array.prototype.sort\<close> is stable: an element moves behind another only when the
  comparator is positive. It is modelled as a stable insertion sort.
\<close>

fun insert_by :: "('a \<Rightarrow> 'a \<Rightarrow> int) \<Rightarrow> 'a \<Rightarrow> 'a list \<Rightarrow> 'a list" where
  "insert_by cmp a [] = [a]"
| "insert_by cmp a (b # bs) = (if cmp a b \<le> 0 then a # b # bs else b # insert_by cmp a bs)"

fun sort_by :: "('a \<Rightarrow> 'a \<Rightarrow> int) \<Rightarrow> 'a list \<Rightarrow> 'a list" where
  "sort_by cmp [] = []"
| "sort_by cmp (a # as) = insert_by cmp a (sort_by cmp as)"

definition entries :: "server \<Rightarrow> (conn_id \<times> player) list" where
  "entries s = map (\<lambda>(k, r). (k, heap s r)) (players s)"

definition buildScoreboard :: "server \<Rightarrow> score_entry list" where
  "buildScoreboard s =
     sort_by compare_scores
       (map (\<lambda>(k, p). \<lparr>se_id = k, se_name = name p, se_kills = kills p, se_deaths = deaths p\<rparr>)
            (entries s))"

subsection \<open>Handlers\<close>

definition spawn_coord :: "real \<Rightarrow> real" where
  "spawn_coord r = (r - 0.5) * 100"

definition join :: "server \<Rightarrow> conn_id \<Rightarrow> join_data \<Rightarrow> server" where
  "join s sid d =
     (let (r1, s1) = Math_random s;
          spawnX = spawn_coord r1;
          (r2, s2) = Math_random s1;
          spawnZ = spawn_coord r2;
          obj = \<lparr>px = spawnX, py = 2, pz = spawnZ,
                 qx = 0, qy = 0, qz = 0, qw = 1,
                 name = or_default (join_name d) ''Anonymous Rat'',
                 hp = MAX_HP,
                 kills = 0,
                 deaths = 0,
                 hatType = or_default (join_hatType d) ''fedora'',
                 hatColor = nullish (join_hatColor d) 0xDC4A3C,
                 furColor = nullish (join_furColor d) 0xE8B84D,
                 coatColor = nullish (join_coatColor d) 0xBE4545\<rparr>;
          r = next_ref s2;
          s3 = s2\<lparr>players := AList.update sid r (players s2),
                  heap := (heap s2)(r := obj),
                  next_ref := Suc r\<rparr>;
          s4 = emit (ToSender sid) (CurrentPlayers (entries s3)) s3;
          s5 = emit (ToOthers sid) (PlayerJoined sid (heap s4 r)) s4
      in emit ToAll (ScoreboardUpdate (buildScoreboard s5)) s5)"

definition updateMovement :: "server \<Rightarrow> conn_id \<Rightarrow> move_data \<Rightarrow> server" where
  "updateMovement s sid d =
     (case lookup s sid of
        None \<Rightarrow> s
      | Some p \<Rightarrow>
          let s1 = modify p (\<lambda>q. q\<lparr>px := mv_x d, py := mv_y d, pz := mv_z d\<rparr>) s;
              s2 = modify p (\<lambda>q. q\<lparr>qx := mv_qx d, qy := mv_qy d, qz := mv_qz d, qw := mv_qw d\<rparr>) s1
          in emit (ToOthers sid)
               (PlayerMoved \<lparr>mm_id = sid,
                  mm_x = mv_x d, mm_y = mv_y d, mm_z = mv_z d,
                  mm_qx = mv_qx d, mm_qy = mv_qy d, mm_qz = mv_qz d, mm_qw = mv_qw d,
                  mm_meshQx = nullish (meshQx d) 0,
                  mm_meshQy = nullish (meshQy d) 0,
                  mm_meshQz = nullish (meshQz d) 0,
                  mm_meshQw = nullish (meshQw d) 1\<rparr>) s2)"

definition shoot :: "server \<Rightarrow> conn_id \<Rightarrow> shoot_data \<Rightarrow> server" where
  "shoot s sid d =
     (case lookup s sid of
        None \<Rightarrow> s
      | Some p \<Rightarrow> emit (ToOthers sid) (PlayerShot sid (origin d) (target d)) s)"

definition hit :: "server \<Rightarrow> conn_id \<Rightarrow> hit_data \<Rightarrow> server" where
  "hit s sid d =
     (if \<not> gameInProgress s then s
      else case lookup s (victimId d) of
        None \<Rightarrow> s
      | Some victim \<Rightarrow>
         (case lookup s sid of
            None \<Rightarrow> s
          | Some shooter \<Rightarrow>
             if hp (heap s victim) \<le> 0 then s
             else
               let s1 = modify victim (\<lambda>q. q\<lparr>hp := hp q - damage d\<rparr>) s;
                   s2 = emit ToAll (PlayerDamaged (victimId d) (hp (heap s1 victim)) sid) s1
               in if hp (heap s2 victim) \<le> 0 then
                    let s3 = modify shooter (\<lambda>q. q\<lparr>kills := kills q + 1\<rparr>) s2;
                        s4 = modify victim (\<lambda>q. q\<lparr>deaths := deaths q + 1\<rparr>) s3;
                        s5 = emit ToAll (PlayerDied (victimId d) sid
                                          (name (heap s4 shooter)) (name (heap s4 victim))) s4;
                        s6 = emit ToAll (ScoreboardUpdate (buildScoreboard s5)) s5
                    in if kills (heap s6 shooter) \<ge> KILLS_TO_WIN then
                         let s7 = s6\<lparr>gameInProgress := False\<rparr>;
                             s8 = emit ToAll (GameWon sid (name (heap s7 shooter))
                                               (kills (heap s7 shooter))) s7
                         in setTimeout RunResetGame WIN_DISPLAY_MS s8
                       else setTimeout (RunRespawn (victimId d) victim) RESPAWN_DELAY_MS s6
                  else s2))"

definition disconnect :: "server \<Rightarrow> conn_id \<Rightarrow> server" where
  "disconnect s sid =
     (let s1 = s\<lparr>players := AList.delete sid (players s)\<rparr>;
          s2 = emit (ToOthers sid) (PlayerLeft sid) s1
      in emit ToAll (ScoreboardUpdate (buildScoreboard s2)) s2)"

subsection \<open>Timer callbacks\<close>

text \<open>The respawn callback of the hit handler, closed over \<^verbatim>\<open>victimId\<close> and \<^verbatim>\<open>victim\<close>.\<close>

definition respawn :: "conn_id \<Rightarrow> ref \<Rightarrow> server \<Rightarrow> server" where
  "respawn vid victim s =
     (case lookup s vid of
        None \<Rightarrow> s
      | Some p \<Rightarrow>
          let s1 = modify victim (\<lambda>q. q\<lparr>hp := MAX_HP\<rparr>) s;
              (r1, s2) = Math_random s1;
              s3 = modify victim (\<lambda>q. q\<lparr>px := spawn_coord r1\<rparr>) s2;
              s4 = modify victim (\<lambda>q. q\<lparr>py := 2\<rparr>) s3;
              (r2, s5) = Math_random s4;
              s6 = modify victim (\<lambda>q. q\<lparr>pz := spawn_coord r2\<rparr>) s5
          in emit ToAll (PlayerRespawn vid (px (heap s6 victim)) (py (heap s6 victim))
                           (pz (heap s6 victim)) (hp (heap s6 victim))) s6)"

text \<open>One iteration of the loop of \<^verbatim>\<open>resetGame\<close>, for the entry \<^verbatim>\<open>[id, player]\<close>.\<close>

definition reset_player :: "conn_id \<times> ref \<Rightarrow> server \<Rightarrow> server" where
  "reset_player e s =
     (let k = fst e; player = snd e;
          s1 = modify player (\<lambda>q. q\<lparr>kills := 0\<rparr>) s;
          s2 = modify player (\<lambda>q. q\<lparr>deaths := 0\<rparr>) s1;
          s3 = modify player (\<lambda>q. q\<lparr>hp := MAX_HP\<rparr>) s2;
          (r1, s4) = Math_random s3;
          s5 = modify player (\<lambda>q. q\<lparr>px := spawn_coord r1\<rparr>) s4;
          s6 = modify player (\<lambda>q. q\<lparr>py := 2\<rparr>) s5;
          (r2, s7) = Math_random s6;
          s8 = modify player (\<lambda>q. q\<lparr>pz := spawn_coord r2\<rparr>) s7
      in emit ToAll (PlayerRespawn k (px (heap s8 player)) (py (heap s8 player))
                       (pz (heap s8 player)) (hp (heap s8 player))) s8)"

definition resetGame :: "server \<Rightarrow> server" where
  "resetGame s =
     (let s1 = s\<lparr>gameInProgress := True\<rparr>;
          s2 = fold reset_player (players s1) s1;
          s3 = emit ToAll GameReset s2
      in emit ToAll (ScoreboardUpdate (buildScoreboard s3)) s3)"

definition run_timer :: "timer_action \<Rightarrow> server \<Rightarrow> server" where
  "run_timer cb s = (case cb of RunResetGame \<Rightarrow> resetGame s | RunRespawn vid victim \<Rightarrow> respawn vid victim s)"

subsection \<open>The event loop\<close>

text \<open>
  The server is single-threaded: it handles one socket event or one expired timer at a
  time. \<open>Fire i\<close> is the expiry of the \<open>i\<close>-th pending timer: the timer is removed and
  its callback runs. Time itself is not modelled, so any pending timer may expire next;
  the delay is kept with the timer.
\<close>

datatype event =
    Join conn_id join_data
  | UpdateMovement conn_id move_data
  | Shoot conn_id shoot_data
  | Hit conn_id hit_data
  | Disconnect conn_id
  | Fire nat

definition fire :: "nat \<Rightarrow> server \<Rightarrow> server" where
  "fire i s =
     (if i < length (timers s)
      then run_timer (snd (timers s ! i)) (s\<lparr>timers := take i (timers s) @ drop (Suc i) (timers s)\<rparr>)
      else s)"

fun step :: "server \<Rightarrow> event \<Rightarrow> server" where
  "step s (Join sid d) = join s sid d"
| "step s (UpdateMovement sid d) = updateMovement s sid d"
| "step s (Shoot sid d) = shoot s sid d"
| "step s (Hit sid d) = hit s sid d"
| "step s (Disconnect sid) = disconnect s sid"
| "step s (Fire i) = fire i s"

definition run :: "server \<Rightarrow> event list \<Rightarrow> server" where
  "run s evs = foldl step s evs"

text \<open>
  The state at process start: no players, round active, nothing scheduled or sent. The
  store cells that no \<^verbatim>\<open>join\<close> has allocated yet hold a filler that no handler reads.
\<close>

definition unallocated :: player where
  "unallocated = \<lparr>px = 0, py = 0, pz = 0, qx = 0, qy = 0, qz = 0, qw = 0, name = [],
     hp = 0, kills = 0, deaths = 0, hatType = [], hatColor = 0, furColor = 0, coatColor = 0\<rparr>"

definition init :: "(nat \<Rightarrow> real) \<Rightarrow> server" where
  "init rnd = \<lparr>players = [], heap = (\<lambda>_. unallocated), next_ref = 0, gameInProgress = True,
               timers = [], outbox = [], random = rnd, drawn = 0\<rparr>"

section \<open>Observations and concrete states\<close>

text \<open>
  What the clients can count in the outbox: the \<^verbatim>\<open>gameWon\<close> and the
  \<^verbatim>\<open>gameReset\<close> broadcasts.
\<close>

fun is_GameWon :: "message \<Rightarrow> bool" where
  "is_GameWon (GameWon w n k) = True"
| "is_GameWon m = False"

fun is_GameReset :: "message \<Rightarrow> bool" where
  "is_GameReset GameReset = True"
| "is_GameReset m = False"

definition wins_announced :: "server \<Rightarrow> nat" where
  "wins_announced s = length (filter is_GameWon (map snd (outbox s)))"

definition resets_announced :: "server \<Rightarrow> nat" where
  "resets_announced s = length (filter is_GameReset (map snd (outbox s)))"

definition round_state :: "server \<Rightarrow> nat \<times> nat \<times> bool" where
  "round_state s = (wins_announced s, resets_announced s, gameInProgress s)"

definition potential :: "server \<Rightarrow> int" where
  "potential s =
     int (wins_announced s) + (if gameInProgress s then 1 else 0) - int (resets_announced s)"

text \<open>The hits of the clients \<open>fst h\<close>, with damage \<open>snd h\<close>, on one victim.\<close>

definition hits_on :: "conn_id \<Rightarrow> (conn_id \<times> int) list \<Rightarrow> event list" where
  "hits_on vid hs = map (\<lambda>(sid, dmg). Hit sid \<lparr>victimId = vid, damage = dmg\<rparr>) hs"

text \<open>
  A generator that always returns one half, a join payload with every optional field
  missing, and the arena after two clients \<open>a\<close> and \<open>b\<close> have joined.
\<close>

definition half :: "nat \<Rightarrow> real" where
  "half n = 1 / 2"

definition anon :: join_data where
  "anon = \<lparr>join_name = None, join_hatType = None, join_hatColor = None,
            join_furColor = None, join_coatColor = None\<rparr>"

definition arena :: server where
  "arena = run (init half) [Join ''a'' anon, Join ''b'' anon]"

text \<open>The arena when \<open>a\<close> is one kill short of the threshold.\<close>

definition match_point :: server where
  "match_point = modify 0 (\<lambda>q. q\<lparr>kills := 19\<rparr>) arena"


definition still :: move_data where
  "still = \<lparr>mv_x = 0, mv_y = 2, mv_z = 0, mv_qx = 0, mv_qy = 0, mv_qz = 0, mv_qw = 1,
             meshQx = Some 0, meshQy = Some 0, meshQz = Some 0, meshQw = Some 1\<rparr>"

text \<open>
  The order of the scoreboard in the words of the specification: more kills first, and
  among equal kills fewer deaths first; that is, ascending in the key
  \<open>(- kills, deaths)\<close>, ordered lexicographically.
\<close>

definition ranks_before :: "score_entry \<Rightarrow> score_entry \<Rightarrow> bool" where
  "ranks_before a b \<longleftrightarrow>
     se_kills a > se_kills b \<or> (se_kills a = se_kills b \<and> se_deaths a \<le> se_deaths b)"

definition score_key :: "score_entry \<Rightarrow> int \<times> int" where
  "score_key e = (- se_kills e, se_deaths e)"

definition score_of :: "server \<Rightarrow> conn_id \<times> ref \<Rightarrow> score_entry" where
  "score_of s e = \<lparr>se_id = fst e, se_name = name (heap s (snd e)),
                   se_kills = kills (heap s (snd e)), se_deaths = deaths (heap s (snd e))\<rparr>"

definition scoreboard_spec :: "server \<Rightarrow> score_entry list" where
  "scoreboard_spec s = sort_key score_key (map (score_of s) (players s))"

text \<open>What one iteration of the reset loop leaves in a session, drawing from \<open>drawn s\<close> on.\<close>

definition respawned :: "server \<Rightarrow> nat \<Rightarrow> player \<Rightarrow> bool" where
  "respawned s n q \<longleftrightarrow>
     kills q = 0 \<and> deaths q = 0 \<and> hp q = MAX_HP \<and> py q = 2
     \<and> (\<exists>i. drawn s \<le> i \<and> Suc i < n
            \<and> px q = spawn_coord (random s i) \<and> pz q = spawn_coord (random s (Suc i)))"

text \<open>The roster \<open>A\<close>, \<open>B\<close>, \<open>C\<close> with kills 3, 3, 1 and deaths 2, 1, 0.\<close>

definition rat_with :: "string \<Rightarrow> int \<Rightarrow> int \<Rightarrow> player" where
  "rat_with n k d = unallocated\<lparr>name := n, hp := 3, kills := k, deaths := d\<rparr>"

definition podium :: server where
  "podium = (init half)\<lparr>players := [(''A'', 0), (''B'', 1), (''C'', 2)],
     heap := (\<lambda>r. if r = 0 then rat_with ''A'' 3 2 else if r = 1 then rat_with ''B'' 3 1 else rat_with ''C'' 1 0),
     next_ref := 3\<rparr>"

text \<open>The arena after \<open>b\<close> has killed \<open>a\<close>.\<close>

definition scored :: server where
  "scored = run arena [Hit ''b'' \<lparr>victimId = ''a'', damage = 3\<rparr>]"

text \<open>A movement payload that differs from \<open>still\<close> in the mesh orientation only.\<close>

definition turned :: move_data where
  "turned = still\<lparr>meshQy := Some 1, meshQw := Some 0\<rparr>"

text \<open>A join payload whose name is two spaces.\<close>

definition blank :: join_data where
  "blank = anon\<lparr>join_name := Some ''  ''\<rparr>"

section \<open>Client: reconciliation of remote avatars\<close>

text \<open>
  Shallow embedding of the remote-avatar part of \<^verbatim>\<open>NetworkManager\<close> (the
  \<^verbatim>\<open>playerMoved\<close> and \<^verbatim>\<open>playerRespawn\<close> listeners, \<^verbatim>\<open>respawnRemoteRat\<close>,
  \<^verbatim>\<open>updateRemoteRats\<close>) and of \<^verbatim>\<open>RatEntity.update\<close> with
  \<^verbatim>\<open>updateDeathRagdoll\<close>.

  \<^item> Numbers are \<open>real\<close>; a vector is a triple, a quaternion a quadruple \<open>(x, y, z, w)\<close>.
  \<^item> The rendered transform of an avatar is \<^verbatim>\<open>mesh.position\<close> and
    \<^verbatim>\<open>mesh.quaternion\<close>. The entity record holds these, the flags and timers of the
    death animation, and the fields of the physics body that the code writes. What only
    drives presentation (billboard sprite, glow outline, materials and flash timer,
    sounds) is left out.
  \<^item> \<^verbatim>\<open>Vector3.lerp\<close> and \<^verbatim>\<open>MathUtils.lerp\<close> of the rendering library are
    written out; its \<^verbatim>\<open>Quaternion.slerp\<close> is a parameter \<open>slerp\<close> of the functions
    that call it. The physics engine moves \<open>b_position\<close> and \<open>b_quaternion\<close> between
    frames; that step is not part of the functions below.
  \<^item> \<^verbatim>\<open>remoteRats\<close>, a \<^verbatim>\<open>Map\<close>, is an association list in insertion order;
    \<^verbatim>\<open>performance.now()\<close> is a parameter \<open>now\<close>.
\<close>

type_synonym quat = "real \<times> real \<times> real \<times> real"

datatype death_phase = Launch | Spin | Settle | Done

definition DEATH_PHASE_LAUNCH :: real where "DEATH_PHASE_LAUNCH = 0.8"
definition DEATH_PHASE_SPIN :: real where "DEATH_PHASE_SPIN = 1.8"
definition DEATH_PHASE_SETTLE :: real where "DEATH_PHASE_SETTLE = 2.5"

record body_state =
  b_position :: vec3
  b_quaternion :: quat
  b_velocity :: vec3
  b_angularVelocity :: vec3
  b_mass :: real
  b_kinematic :: bool
  b_fixedRotation :: bool
  b_linearDamping :: real
  b_angularDamping :: real
  b_sleeping :: bool

record rat_entity =
  dead :: bool
  e_hp :: int
  mesh_position :: vec3
  mesh_quaternion :: quat
  mesh_visible :: bool
  body :: body_state
  deathTimer :: real
  deathPhase :: death_phase
  deathPosition :: "vec3 option"
  deathTargetQuat :: "quat option"
  ragdollSettled :: bool




text \<open>\<^verbatim>\<open>MathUtils.lerp(x, y, t)\<close> and \<^verbatim>\<open>v.lerp(w, alpha)\<close>.\<close>

definition math_lerp :: "real \<Rightarrow> real \<Rightarrow> real \<Rightarrow> real" where
  "math_lerp a b t = (1 - t) * a + t * b"


fun vec_y :: "vec3 \<Rightarrow> real" where
  "vec_y (vx, vy, vz) = vy"

fun set_y :: "vec3 \<Rightarrow> real \<Rightarrow> vec3" where
  "set_y (vx, vy, vz) t = (vx, t, vz)"

definition copy_body_to_mesh :: "rat_entity \<Rightarrow> rat_entity" where
  "copy_body_to_mesh e =
     e\<lparr>mesh_position := b_position (body e), mesh_quaternion := b_quaternion (body e)\<rparr>"

definition updateDeathRagdoll :: "(quat \<Rightarrow> quat \<Rightarrow> real \<Rightarrow> quat) \<Rightarrow> rat_entity \<Rightarrow> rat_entity" where
  "updateDeathRagdoll slerp e =
     (let t = deathTimer e in
      case deathPhase e of
        Launch \<Rightarrow>
          let e1 = copy_body_to_mesh e;
              e2 = e1\<lparr>body := (body e1)\<lparr>b_linearDamping := 0.05, b_angularDamping := 0.05\<rparr>\<rparr>
          in if t \<ge> DEATH_PHASE_LAUNCH then e2\<lparr>deathPhase := Spin\<rparr> else e2
      | Spin \<Rightarrow>
          let e1 = copy_body_to_mesh e;
              spinProgress = (t - DEATH_PHASE_LAUNCH) / (DEATH_PHASE_SPIN - DEATH_PHASE_LAUNCH);
              e2 = e1\<lparr>body := (body e1)\<lparr>b_linearDamping := math_lerp 0.1 0.7 spinProgress,
                                          b_angularDamping := math_lerp 0.1 0.8 spinProgress\<rparr>\<rparr>
          in if t \<ge> DEATH_PHASE_SPIN then
               e2\<lparr>deathPhase := Settle,
                  body := (body e2)\<lparr>b_velocity := (0, 0, 0), b_angularVelocity := (0, 0, 0),
                                     b_linearDamping := 0.99, b_angularDamping := 0.99,
                                     b_sleeping := True\<rparr>,
                  deathPosition := Some (mesh_position e2)\<rparr>
             else e2
      | Settle \<Rightarrow>
          let settleProgress =
                min ((t - DEATH_PHASE_SPIN) / (DEATH_PHASE_SETTLE - DEATH_PHASE_SPIN)) 1;
              eased = 1 - (1 - settleProgress) ^ 3;
              e1 = (case deathPosition e of
                      Some dp \<Rightarrow>
                        e\<lparr>mesh_position := set_y (mesh_position e) (math_lerp (vec_y dp) 0.3 eased)\<rparr>
                    | None \<Rightarrow> e);
              e2 = (case deathTargetQuat e1 of
                      Some q \<Rightarrow>
                        e1\<lparr>mesh_quaternion := slerp (mesh_quaternion e1) q (eased * 0.3 + 0.05)\<rparr>
                    | None \<Rightarrow> e1)
          in if settleProgress \<ge> 1 then
               let e3 = e2\<lparr>deathPhase := Done, ragdollSettled := True\<rparr>;
                   e4 = (case deathTargetQuat e3 of
                           Some q \<Rightarrow> e3\<lparr>mesh_quaternion := q\<rparr>
                         | None \<Rightarrow> e3)
               in e4\<lparr>mesh_position := set_y (mesh_position e4) 0.3\<rparr>
             else e2
      | Done \<Rightarrow> e)"

text \<open>\<^verbatim>\<open>RatEntity.update(dt)\<close>.\<close>

definition rat_update :: "(quat \<Rightarrow> quat \<Rightarrow> real \<Rightarrow> quat) \<Rightarrow> real \<Rightarrow> rat_entity \<Rightarrow> rat_entity" where
  "rat_update slerp dt e =
     (if dead e then updateDeathRagdoll slerp (e\<lparr>deathTimer := deathTimer e + dt\<rparr>)
      else e\<lparr>mesh_position := b_position (body e)\<rparr>)"














section \<open>Properties of the server\<close>

lemmas prim_defs = modify_def emit_def setTimeout_def Math_random_def

lemmas eval_defs = run_def init_def join_def hit_def disconnect_def fire_def run_timer_def
  respawn_def prim_defs lookup_def session_def entries_def buildScoreboard_def
  compare_scores_def Let_def MAX_HP_def KILLS_TO_WIN_def RESPAWN_DELAY_MS_def
  WIN_DISPLAY_MS_def or_default_def nullish_def spawn_coord_def half_def anon_def

lemma run_Nil [simp]: "run s [] = s"
  by (simp add: run_def)

lemma run_Cons [simp]: "run s (e # es) = run (step s e) es"
  by (simp add: run_def)

lemma arena_lookup:
  "lookup arena ''a'' = Some 0" "lookup arena ''b'' = Some (Suc 0)" "lookup arena ''c'' = None"
  by (simp_all add: arena_def eval_defs del: run_Nil run_Cons)

lemma arena_state:
  "gameInProgress arena" "timers arena = []" "players arena = [(''a'', 0), (''b'', Suc 0)]"
  by (simp_all add: arena_def eval_defs del: run_Nil run_Cons)

lemma arena_heap:
  "hp (heap arena 0) = 3" "kills (heap arena 0) = 0" "deaths (heap arena 0) = 0"
  "hp (heap arena (Suc 0)) = 3" "kills (heap arena (Suc 0)) = 0" "deaths (heap arena (Suc 0)) = 0"
  "name (heap arena 0) = ''Anonymous Rat''" "name (heap arena (Suc 0)) = ''Anonymous Rat''"
  by (simp_all add: arena_def eval_defs del: run_Nil run_Cons)

subsection \<open>The hit handler\<close>

lemma hit_players [simp]: "players (hit s sid d) = players s"
  by (simp add: hit_def prim_defs Let_def split: option.splits)

lemma hit_lookup [simp]: "lookup (hit s sid d) k = lookup s k"
  by (simp add: lookup_def)

lemma hit_inactive: "\<not> gameInProgress s \<Longrightarrow> hit s sid d = s"
  by (simp add: hit_def)

lemma hit_unknown_victim: "lookup s (victimId d) = None \<Longrightarrow> hit s sid d = s"
  by (simp add: hit_def)

lemma hit_unknown_shooter: "lookup s sid = None \<Longrightarrow> hit s sid d = s"
  by (simp add: hit_def split: option.splits)

lemma hit_dead_victim:
  "lookup s (victimId d) = Some v \<Longrightarrow> hp (heap s v) \<le> 0 \<Longrightarrow> hit s sid d = s"
  by (simp add: hit_def split: option.splits)

lemma hit_processed:
  assumes "gameInProgress s" "lookup s (victimId d) = Some v" "lookup s sid = Some sh"
    "0 < hp (heap s v)"
  shows "hp (heap (hit s sid d) v) = hp (heap s v) - damage d"
    and "\<exists>rest. outbox (hit s sid d) =
           outbox s @ (ToAll, PlayerDamaged (victimId d) (hp (heap s v) - damage d) sid) # rest"
  using assms by (simp_all add: hit_def prim_defs Let_def)

lemma hit_victim_step:
  assumes "lookup s (victimId d) = Some v"
  shows "deaths (heap (hit s sid d) v) =
           deaths (heap s v) + (if 0 < hp (heap s v) \<and> hp (heap (hit s sid d) v) \<le> 0 then 1 else 0)"
  using assms by (simp add: hit_def prim_defs Let_def split: option.splits)

lemma hits_on_dead:
  "lookup s vid = Some v \<Longrightarrow> hp (heap s v) \<le> 0 \<Longrightarrow> run s (hits_on vid hs) = s"
  by (induction hs) (auto simp: hits_on_def hit_dead_victim)

lemma hits_on_deaths:
  "lookup s vid = Some v \<Longrightarrow>
   deaths (heap (run s (hits_on vid hs)) v) =
     deaths (heap s v) +
     (if 0 < hp (heap s v) \<and> hp (heap (run s (hits_on vid hs)) v) \<le> 0 then 1 else 0)"
proof (induction hs arbitrary: s)
  case Nil
  then show ?case by (simp add: hits_on_def)
next
  case (Cons h hs)
  obtain sid dmg where h: "h = (sid, dmg)" by (cases h)
  let ?d = "\<lparr>victimId = vid, damage = dmg\<rparr>"
  let ?s1 = "hit s sid ?d"
  have l1: "lookup ?s1 vid = Some v" using Cons.prems by simp
  have r: "run s (hits_on vid (h # hs)) = run ?s1 (hits_on vid hs)"
    by (simp add: hits_on_def h)
  have st: "deaths (heap ?s1 v) =
      deaths (heap s v) + (if 0 < hp (heap s v) \<and> hp (heap ?s1 v) \<le> 0 then 1 else 0)"
    using hit_victim_step [of s ?d v sid] Cons.prems by simp
  show ?case
  proof (cases "0 < hp (heap s v)")
    case False
    then have "run s (hits_on vid (h # hs)) = s"
      using hits_on_dead [OF Cons.prems, of "h # hs"] by simp
    with False show ?thesis by simp
  next
    case alive: True
    show ?thesis
    proof (cases "hp (heap ?s1 v) \<le> 0")
      case True
      then have "run ?s1 (hits_on vid hs) = ?s1"
        using hits_on_dead [OF l1] by simp
      with True alive st r show ?thesis by simp
    next
      case False
      with Cons.IH [OF l1] alive st r show ?thesis by simp
    qed
  qed
qed

text \<open>
  Claim C1, as the code has it. A processed hit (round active, both sessions known, victim
  alive) stores the victim's previous hit points minus the damage, and broadcasts that
  same number in \<^verbatim>\<open>playerDamaged\<close>. Nothing clamps it: it is non-negative exactly
  when the damage does not exceed the previous hit points.
\<close>

theorem hit_records_unclamped_hp:
  assumes "gameInProgress s" and "lookup s (victimId d) = Some v"
    and "lookup s sid = Some sh" and "0 < hp (heap s v)"
  shows "hp (heap (hit s sid d) v) = hp (heap s v) - damage d
       \<and> (\<exists>rest. outbox (hit s sid d) =
             outbox s @ (ToAll, PlayerDamaged (victimId d) (hp (heap (hit s sid d) v)) sid) # rest)
       \<and> (0 \<le> hp (heap (hit s sid d) v) \<longleftrightarrow> damage d \<le> hp (heap s v))"
  using hit_processed [OF assms] by auto

theorem hit_records_unclamped_hp_witness:
  "gameInProgress arena \<and> lookup arena ''a'' = Some 0 \<and> lookup arena ''b'' = Some 1
   \<and> 0 < hp (heap arena 0)
   \<and> hp (heap (hit arena ''b'' \<lparr>victimId = ''a'', damage = 1\<rparr>) 0) = 2
   \<and> 0 \<le> hp (heap (hit arena ''b'' \<lparr>victimId = ''a'', damage = 1\<rparr>) 0)"
proof -
  have h: "gameInProgress arena" "lookup arena (victimId \<lparr>victimId = ''a'', damage = 1\<rparr>) = Some 0"
    "lookup arena ''b'' = Some (Suc 0)" "0 < hp (heap arena 0)"
    by (simp_all add: arena_lookup arena_state arena_heap)
  show ?thesis
    using hit_records_unclamped_hp [OF h] h by (simp add: arena_heap)
qed

text \<open>
  Claim C1 as stated fails: after a body shot (damage 1) and a head shot (damage 3) on a
  fresh victim, the session holds \<open>-1\<close> hit points and \<open>-1\<close> was broadcast.
\<close>

theorem hit_negative_hp_counterexample:
  "map_option hp (session (run arena
       [Hit ''b'' \<lparr>victimId = ''a'', damage = 1\<rparr>, Hit ''b'' \<lparr>victimId = ''a'', damage = 3\<rparr>]) ''a'')
     = Some (- 1)
   \<and> (ToAll, PlayerDamaged ''a'' (- 1) ''b'') \<in> set (outbox (run arena
       [Hit ''b'' \<lparr>victimId = ''a'', damage = 1\<rparr>, Hit ''b'' \<lparr>victimId = ''a'', damage = 3\<rparr>]))"
  by (simp add: arena_def eval_defs del: run_Nil run_Cons)

text \<open>
  Claim C2. A hit on a victim whose hit points are already \<open>\<le> 0\<close> leaves the whole server
  state as it was. Hence over any sequence of hits on one victim, by any shooters and with
  any damage, the victim's death count goes up by one if the victim was alive before and
  is dead after, and by nothing otherwise.
\<close>

theorem death_counted_once_per_life:
  "(lookup s (victimId d) = Some v \<and> hp (heap s v) \<le> 0 \<longrightarrow> hit s sid d = s)
   \<and> (lookup s vid = Some v \<longrightarrow>
        deaths (heap (run s (hits_on vid hs)) v) =
          deaths (heap s v) +
          (if 0 < hp (heap s v) \<and> hp (heap (run s (hits_on vid hs)) v) \<le> 0 then 1 else 0))"
  using hit_dead_victim hits_on_deaths by blast

theorem death_counted_once_per_life_witness:
  "lookup arena ''a'' = Some 0
   \<and> hp (heap (run arena (hits_on ''a'' [(''b'', 3)])) 0) \<le> 0
   \<and> hit (run arena (hits_on ''a'' [(''b'', 3)])) ''b'' \<lparr>victimId = ''a'', damage = 3\<rparr>
       = run arena (hits_on ''a'' [(''b'', 3)])
   \<and> deaths (heap (run arena (hits_on ''a'' [(''b'', 3), (''b'', 3), (''a'', 1)])) 0) = 1"
proof -
  let ?s1 = "run arena (hits_on ''a'' [(''b'', 3)])"
  let ?s3 = "run arena (hits_on ''a'' [(''b'', 3), (''b'', 3), (''a'', 1)])"
  have l: "lookup arena ''a'' = Some 0" by (rule arena_lookup)
  have l1: "lookup ?s1 ''a'' = Some 0" by (simp add: hits_on_def arena_lookup)
  have h1: "hp (heap ?s1 0) \<le> 0"
    by (simp add: arena_def hits_on_def eval_defs del: run_Nil run_Cons)
  have h3: "hp (heap ?s3 0) \<le> 0"
    by (simp add: arena_def hits_on_def eval_defs del: run_Nil run_Cons)
  have a: "hit ?s1 ''b'' \<lparr>victimId = ''a'', damage = 3\<rparr> = ?s1"
    using death_counted_once_per_life
      [where s = "?s1" and d = "\<lparr>victimId = ''a'', damage = 3\<rparr>" and v = 0 and sid = "''b''"] l1 h1
    by simp
  have b: "deaths (heap ?s3 0) = 1"
    using death_counted_once_per_life
      [where s = arena and vid = "''a''" and v = 0 and hs = "[(''b'', 3), (''b'', 3), (''a'', 1)]"]
      l h3 by (simp add: arena_heap)
  show ?thesis using l h1 a b by blast
qed


subsection \<open>Rounds\<close>

lemma match_point_facts:
  "kills (heap match_point 0) = 19" "hp (heap match_point (Suc 0)) = 3" "gameInProgress match_point"
  "lookup match_point ''a'' = Some 0" "lookup match_point ''b'' = Some (Suc 0)"
  "name (heap match_point 0) = ''Anonymous Rat''" "hp (heap match_point 0) = 3"
  "timers match_point = []"
  using arena_lookup arena_heap arena_state
  by (simp_all add: match_point_def modify_def lookup_def)

lemmas count_defs = round_state_def wins_announced_def resets_announced_def

lemma round_state_emit:
  "\<not> is_GameWon m \<Longrightarrow> \<not> is_GameReset m \<Longrightarrow> round_state (emit a m s) = round_state s"
  by (simp add: count_defs emit_def)

lemma round_state_modify [simp]: "round_state (modify r f s) = round_state s"
  by (simp add: count_defs modify_def)

lemma round_state_random [simp]: "round_state (snd (Math_random s)) = round_state s"
  by (simp add: count_defs Math_random_def)

lemma round_state_setTimeout [simp]: "round_state (setTimeout cb ms s) = round_state s"
  by (simp add: count_defs setTimeout_def)

lemma round_state_players [simp]: "round_state (s\<lparr>players := ps\<rparr>) = round_state s"
  by (simp add: count_defs)

lemma round_state_alloc [simp]:
  "round_state (s\<lparr>players := ps, heap := h, next_ref := n\<rparr>) = round_state s"
  by (simp add: count_defs)

lemma round_state_drop_timer [simp]: "round_state (s\<lparr>timers := ts\<rparr>) = round_state s"
  by (simp add: count_defs)

lemma round_state_join: "round_state (join s sid d) = round_state s"
  by (simp add: join_def Let_def split_def round_state_emit)

lemma round_state_updateMovement: "round_state (updateMovement s sid d) = round_state s"
  by (cases "lookup s sid") (simp_all add: updateMovement_def Let_def round_state_emit)

lemma round_state_shoot: "round_state (shoot s sid d) = round_state s"
  by (cases "lookup s sid") (simp_all add: shoot_def round_state_emit)

lemma round_state_disconnect: "round_state (disconnect s sid) = round_state s"
  by (simp add: disconnect_def Let_def round_state_emit)

lemma round_state_respawn: "round_state (respawn vid v s) = round_state s"
  by (cases "lookup s vid") (simp_all add: respawn_def Let_def split_def round_state_emit)

lemma round_state_reset_player: "round_state (reset_player e s) = round_state s"
  by (simp add: reset_player_def Let_def split_def round_state_emit)

lemma round_state_fold_reset: "round_state (fold reset_player ps s) = round_state s"
  by (induction ps arbitrary: s) (simp_all add: round_state_reset_player)

lemma round_state_resetGame:
  "round_state (resetGame s) = (wins_announced s, Suc (resets_announced s), True)"
proof -
  let ?s2 = "fold reset_player (players s) (s\<lparr>gameInProgress := True\<rparr>)"
  have "round_state ?s2 = round_state (s\<lparr>gameInProgress := True\<rparr>)"
    by (rule round_state_fold_reset)
  then have 2: "round_state ?s2 = (wins_announced s, resets_announced s, True)"
    by (simp add: count_defs)
  have "round_state (resetGame s) = round_state (emit ToAll GameReset ?s2)"
    by (simp add: resetGame_def Let_def round_state_emit)
  also have "\<dots> = (wins_announced s, Suc (resets_announced s), True)"
    using 2 by (simp add: count_defs emit_def)
  finally show ?thesis .
qed

lemma round_state_hit_processed:
  assumes "gameInProgress s" "lookup s (victimId d) = Some v" "lookup s sid = Some sh"
    "0 < hp (heap s v)"
  shows "round_state (hit s sid d) =
     (if hp (heap s v) - damage d \<le> 0 \<and> KILLS_TO_WIN \<le> kills (heap s sh) + 1
      then (Suc (wins_announced s), resets_announced s, False) else round_state s)"
proof (cases "hp (heap s v) - damage d \<le> 0")
  case False
  with assms show ?thesis by (simp add: hit_def Let_def prim_defs count_defs)
next
  case dead: True
  show ?thesis
  proof (cases "KILLS_TO_WIN \<le> kills (heap s sh) + 1")
    case True
    with dead assms show ?thesis by (simp add: hit_def Let_def prim_defs count_defs; auto)
  next
    case False
    with dead assms show ?thesis by (simp add: hit_def Let_def prim_defs count_defs; auto)
  qed
qed

lemma round_state_hit:
  "round_state (hit s sid d) = round_state s
   \<or> (gameInProgress s \<and> round_state (hit s sid d) = (Suc (wins_announced s), resets_announced s, False))"
proof (cases "gameInProgress s")
  case False
  then show ?thesis by (simp add: hit_inactive)
next
  case active: True
  show ?thesis
  proof (cases "lookup s (victimId d)")
    case None
    then show ?thesis by (simp add: hit_unknown_victim)
  next
    case (Some v)
    note v = this
    show ?thesis
    proof (cases "lookup s sid")
      case None
      then show ?thesis by (simp add: hit_unknown_shooter)
    next
      case (Some sh)
      show ?thesis
      proof (cases "0 < hp (heap s v)")
        case False
        then show ?thesis using hit_dead_victim [OF v, of sid] by simp
      next
        case True
        from round_state_hit_processed [OF active v Some True] active show ?thesis
          by (simp split: if_splits)
      qed
    qed
  qed
qed

lemma potential_round_state: "round_state t = round_state s \<Longrightarrow> potential t = potential s"
  by (simp add: potential_def round_state_def)

lemma potential_step: "potential (step s e) \<le> potential s"
proof (cases e)
  case (Join sid d)
  then show ?thesis using potential_round_state [OF round_state_join [of s sid d]] by simp
next
  case (UpdateMovement sid d)
  then show ?thesis using potential_round_state [OF round_state_updateMovement [of s sid d]] by simp
next
  case (Shoot sid d)
  then show ?thesis using potential_round_state [OF round_state_shoot [of s sid d]] by simp
next
  case (Disconnect sid)
  then show ?thesis using potential_round_state [OF round_state_disconnect [of s sid]] by simp
next
  case (Hit sid d)
  then show ?thesis using round_state_hit [of s sid d]
    by (auto simp: potential_def round_state_def)
next
  case (Fire i)
  show ?thesis
  proof (cases "i < length (timers s)")
    case False
    then show ?thesis by (simp add: Fire fire_def)
  next
    case True
    let ?s = "s\<lparr>timers := take i (timers s) @ drop (Suc i) (timers s)\<rparr>"
    have rs: "round_state ?s = round_state s" by simp
    show ?thesis
    proof (cases "snd (timers s ! i)")
      case RunResetGame
      then have "step s e = resetGame ?s" using True by (simp add: Fire fire_def run_timer_def)
      then show ?thesis using round_state_resetGame [of ?s] rs
        by (auto simp: potential_def round_state_def)
    next
      case (RunRespawn vid v)
      then have "step s e = respawn vid v ?s" using True by (simp add: Fire fire_def run_timer_def)
      moreover have "round_state (respawn vid v ?s) = round_state s"
        using round_state_respawn [of vid v ?s] rs by simp
      ultimately show ?thesis using potential_round_state [of "respawn vid v ?s" s] by simp
    qed
  qed
qed

lemma potential_run: "potential (run s evs) \<le> potential s"
proof (induction evs arbitrary: s)
  case Nil
  show ?case by simp
next
  case (Cons e evs)
  have "potential (run (step s e) evs) \<le> potential (step s e)" by (rule Cons.IH)
  also have "\<dots> \<le> potential s" by (rule potential_step)
  finally show ?case by simp
qed

lemma wins_bounded:
  assumes "resets_announced (run s evs) = resets_announced s"
  shows "wins_announced (run s evs) \<le> wins_announced s + (if gameInProgress s then 1 else 0)"
  using potential_run [of s evs] assms by (simp add: potential_def split: if_splits)

lemma hit_wins:
  assumes "gameInProgress s" "lookup s (victimId d) = Some v" "lookup s sid = Some sh"
    "0 < hp (heap s v)" "hp (heap s v) - damage d \<le> 0" "20 \<le> kills (heap s sh) + 1"
  shows "\<not> gameInProgress (hit s sid d)"
    and "\<exists>sb. outbox (hit s sid d) = outbox s @
           [(ToAll, PlayerDamaged (victimId d) (hp (heap s v) - damage d) sid),
            (ToAll, PlayerDied (victimId d) sid (name (heap s sh)) (name (heap s v))),
            (ToAll, ScoreboardUpdate sb),
            (ToAll, GameWon sid (name (heap s sh)) (kills (heap s sh) + 1))]"
    and "timers (hit s sid d) = timers s @ [(6000, RunResetGame)]"
  using assms
  by (auto simp add: hit_def Let_def prim_defs KILLS_TO_WIN_def WIN_DISPLAY_MS_def)

text \<open>
  Claim C3. When a lethal hit takes the shooter to 20 kills or more, the round becomes
  inactive, the outbox gains the damage, death and scoreboard broadcasts followed by
  \<^verbatim>\<open>gameWon\<close> with the shooter's id, name and kill count, and the only timer added
  is the round reset after 6000 ms (no respawn for the victim). While the round is
  inactive a hit returns the state it was given. Over any run of server events during
  which no round reset is announced, at most one \<^verbatim>\<open>gameWon\<close> is broadcast, and
  none if the round was already inactive.
\<close>

theorem win_once_per_round:
  "(gameInProgress s \<and> lookup s (victimId d) = Some v \<and> lookup s sid = Some sh
      \<and> 0 < hp (heap s v) \<and> hp (heap s v) - damage d \<le> 0 \<and> 20 \<le> kills (heap s sh) + 1 \<longrightarrow>
        \<not> gameInProgress (hit s sid d)
      \<and> (\<exists>sb. outbox (hit s sid d) = outbox s @
           [(ToAll, PlayerDamaged (victimId d) (hp (heap s v) - damage d) sid),
            (ToAll, PlayerDied (victimId d) sid (name (heap s sh)) (name (heap s v))),
            (ToAll, ScoreboardUpdate sb),
            (ToAll, GameWon sid (name (heap s sh)) (kills (heap s sh) + 1))])
      \<and> timers (hit s sid d) = timers s @ [(6000, RunResetGame)])
   \<and> (\<not> gameInProgress s \<longrightarrow> hit s sid d = s)
   \<and> (resets_announced (run s evs) = resets_announced s \<longrightarrow>
        wins_announced (run s evs) \<le> wins_announced s + (if gameInProgress s then 1 else 0))"
  using hit_wins [of s d v sid sh] hit_inactive [of s sid d] wins_bounded [of s evs] by blast

theorem win_once_per_round_witness:
  "gameInProgress match_point \<and> kills (heap match_point 0) = 19
   \<and> \<not> gameInProgress (hit match_point ''a'' \<lparr>victimId = ''b'', damage = 3\<rparr>)
   \<and> timers (hit match_point ''a'' \<lparr>victimId = ''b'', damage = 3\<rparr>) = [(6000, RunResetGame)]
   \<and> hit (hit match_point ''a'' \<lparr>victimId = ''b'', damage = 3\<rparr>) ''b'' \<lparr>victimId = ''a'', damage = 3\<rparr>
       = hit match_point ''a'' \<lparr>victimId = ''b'', damage = 3\<rparr>
   \<and> wins_announced (run match_point
        [Hit ''a'' \<lparr>victimId = ''b'', damage = 3\<rparr>, Hit ''b'' \<lparr>victimId = ''a'', damage = 3\<rparr>,
         Hit ''a'' \<lparr>victimId = ''b'', damage = 3\<rparr>]) \<le> wins_announced match_point + 1"
proof -
  let ?d = "\<lparr>victimId = ''b'', damage = 3\<rparr>"
  let ?evs = "[Hit ''a'' ?d, Hit ''b'' \<lparr>victimId = ''a'', damage = 3\<rparr>, Hit ''a'' ?d]"
  have h: "gameInProgress match_point \<and> lookup match_point (victimId ?d) = Some (Suc 0)
      \<and> lookup match_point ''a'' = Some 0 \<and> 0 < hp (heap match_point (Suc 0))
      \<and> hp (heap match_point (Suc 0)) - damage ?d \<le> 0 \<and> 20 \<le> kills (heap match_point 0) + 1"
    by (simp add: match_point_facts)
  have r: "resets_announced (run match_point ?evs) = resets_announced match_point"
    by (simp add: resets_announced_def match_point_def arena_def eval_defs del: run_Nil run_Cons)
  note a = win_once_per_round [where s = match_point and d = "?d" and v = "Suc 0" and sid = "''a''"
      and sh = 0 and evs = "?evs"]
  note b = win_once_per_round [where s = "hit match_point ''a'' ?d"
      and d = "\<lparr>victimId = ''a'', damage = 3\<rparr>" and sid = "''b''" and evs = "[]"]
  show ?thesis using a b h r by (simp add: match_point_facts)
qed

subsection \<open>Self-inflicted hits\<close>

text \<open>
  Claim C10. A hit whose victim is the sender is handled like any other. While the round
  is active and the player is alive, the player's hit points go down by the damage; a
  lethal self-hit adds one to the same player's kills and one to its deaths, and that kill
  ends the round when it reaches the threshold.
\<close>

theorem self_hit_processed:
  assumes "gameInProgress s" and "lookup s sid = Some p" and "0 < hp (heap s p)"
  shows "hp (heap (hit s sid \<lparr>victimId = sid, damage = dmg\<rparr>) p) = hp (heap s p) - dmg
    \<and> (0 < hp (heap s p) - dmg \<longrightarrow>
         kills (heap (hit s sid \<lparr>victimId = sid, damage = dmg\<rparr>) p) = kills (heap s p)
       \<and> deaths (heap (hit s sid \<lparr>victimId = sid, damage = dmg\<rparr>) p) = deaths (heap s p)
       \<and> gameInProgress (hit s sid \<lparr>victimId = sid, damage = dmg\<rparr>))
    \<and> (hp (heap s p) - dmg \<le> 0 \<longrightarrow>
         kills (heap (hit s sid \<lparr>victimId = sid, damage = dmg\<rparr>) p) = kills (heap s p) + 1
       \<and> deaths (heap (hit s sid \<lparr>victimId = sid, damage = dmg\<rparr>) p) = deaths (heap s p) + 1
       \<and> (gameInProgress (hit s sid \<lparr>victimId = sid, damage = dmg\<rparr>)
            \<longleftrightarrow> kills (heap s p) + 1 < KILLS_TO_WIN)
       \<and> (KILLS_TO_WIN \<le> kills (heap s p) + 1 \<longrightarrow>
            (ToAll, GameWon sid (name (heap s p)) (kills (heap s p) + 1))
              \<in> set (outbox (hit s sid \<lparr>victimId = sid, damage = dmg\<rparr>))))"
  using assms by (simp add: hit_def prim_defs Let_def)

theorem self_hit_processed_witness:
  "gameInProgress arena \<and> lookup arena ''a'' = Some 0 \<and> 0 < hp (heap arena 0)
   \<and> hp (heap (hit arena ''a'' \<lparr>victimId = ''a'', damage = 1\<rparr>) 0) = 2
   \<and> kills (heap (hit arena ''a'' \<lparr>victimId = ''a'', damage = 3\<rparr>) 0) = 1
   \<and> deaths (heap (hit arena ''a'' \<lparr>victimId = ''a'', damage = 3\<rparr>) 0) = 1
   \<and> \<not> gameInProgress (hit match_point ''a'' \<lparr>victimId = ''a'', damage = 3\<rparr>)
   \<and> (ToAll, GameWon ''a'' ''Anonymous Rat'' 20)
        \<in> set (outbox (hit match_point ''a'' \<lparr>victimId = ''a'', damage = 3\<rparr>))"
  using self_hit_processed [of arena "''a''" 0 1] self_hit_processed [of arena "''a''" 0 3]
    self_hit_processed [of match_point "''a''" 0 3]
  by (simp add: arena_lookup arena_state arena_heap match_point_facts KILLS_TO_WIN_def)

subsection \<open>Events without a session\<close>




subsection \<open>Scoreboard\<close>

lemma compare_scores_le: "compare_scores a b \<le> 0 \<longleftrightarrow> score_key a \<le> score_key b"
  by (auto simp: compare_scores_def score_key_def less_eq_prod_def)

lemma score_key_le: "score_key a \<le> score_key b \<longleftrightarrow> ranks_before a b"
  by (auto simp: ranks_before_def score_key_def less_eq_prod_def)

lemma insert_by_insort: "insert_by compare_scores a xs = insort_key score_key a xs"
  by (induction xs) (simp_all add: compare_scores_le)

lemma sort_by_sort_key: "sort_by compare_scores xs = sort_key score_key xs"
  by (induction xs) (simp_all add: insert_by_insort)

lemma scoreboard_entries: "map (\<lambda>(k, p). \<lparr>se_id = k, se_name = name p, se_kills = kills p, se_deaths = deaths p\<rparr>)
            (entries s) = map (score_of s) (players s)"
  by (simp add: entries_def score_of_def split_def)

lemma buildScoreboard_spec: "buildScoreboard s = scoreboard_spec s"
  by (simp add: buildScoreboard_def scoreboard_spec_def sort_by_sort_key scoreboard_entries)

lemma sorted_ranks: "sorted (map score_key xs) \<Longrightarrow> sorted_wrt ranks_before xs"
  by (induction xs) (auto simp: score_key_le)

text \<open>
  Claim C4. The scoreboard holds exactly the entries of the current sessions, ordered so
  that more kills come first and, among equal kills, fewer deaths come first. It is the
  stable sort of the roster by the key \<open>(- kills, deaths)\<close>, so it is a function of the
  roster alone. For \<open>A\<close>, \<open>B\<close>, \<open>C\<close> with kills 3, 3, 1 and deaths 2, 1, 0 the order is
  \<open>B\<close>, \<open>A\<close>, \<open>C\<close>.
\<close>

theorem buildScoreboard_sorted:
  "buildScoreboard s = scoreboard_spec s
   \<and> mset (buildScoreboard s) = mset (map (score_of s) (players s))
   \<and> sorted_wrt ranks_before (buildScoreboard s)
   \<and> map se_id (buildScoreboard podium) = [''B'', ''A'', ''C'']"
proof -
  have 1: "buildScoreboard s = scoreboard_spec s" by (rule buildScoreboard_spec)
  have 2: "mset (buildScoreboard s) = mset (map (score_of s) (players s))"
    by (simp add: 1 scoreboard_spec_def)
  have 3: "sorted_wrt ranks_before (buildScoreboard s)"
    by (rule sorted_ranks) (simp add: 1 scoreboard_spec_def)
  have 4: "map se_id (buildScoreboard podium) = [''B'', ''A'', ''C'']"
    by (simp add: buildScoreboard_def entries_def podium_def rat_with_def compare_scores_def)
  show ?thesis using 1 2 3 4 by blast
qed

theorem buildScoreboard_sorted_witness:
  "buildScoreboard podium = scoreboard_spec podium
   \<and> sorted_wrt ranks_before (buildScoreboard podium)
   \<and> map se_id (buildScoreboard podium) = [''B'', ''A'', ''C'']"
  using buildScoreboard_sorted [of podium] by blast

subsection \<open>Round reset\<close>

lemma reset_player_frame:
  "players (reset_player e s) = players s" "random (reset_player e s) = random s"
  "drawn (reset_player e s) = Suc (Suc (drawn s))"
  "gameInProgress (reset_player e s) = gameInProgress s"
  by (simp_all add: reset_player_def Let_def split_def prim_defs)

lemma reset_player_other: "r \<noteq> snd e \<Longrightarrow> heap (reset_player e s) r = heap s r"
  by (simp add: reset_player_def Let_def split_def prim_defs)

lemma reset_player_self:
  "heap (reset_player e s) (snd e) =
     (heap s (snd e))\<lparr>kills := 0, deaths := 0, hp := MAX_HP,
        px := spawn_coord (random s (drawn s)), py := 2,
        pz := spawn_coord (random s (Suc (drawn s)))\<rparr>"
  by (simp add: reset_player_def Let_def split_def prim_defs)

lemma reset_player_identity:
  "name (heap (reset_player e s) r) = name (heap s r)"
  "hatType (heap (reset_player e s) r) = hatType (heap s r)"
  "hatColor (heap (reset_player e s) r) = hatColor (heap s r)"
  "furColor (heap (reset_player e s) r) = furColor (heap s r)"
  "coatColor (heap (reset_player e s) r) = coatColor (heap s r)"
  by (cases "r = snd e"; simp add: reset_player_other reset_player_self)+

lemma fold_reset_frame:
  "players (fold reset_player ps s) = players s \<and> random (fold reset_player ps s) = random s
   \<and> drawn (fold reset_player ps s) = drawn s + 2 * length ps
   \<and> gameInProgress (fold reset_player ps s) = gameInProgress s"
  by (induction ps arbitrary: s) (simp_all add: reset_player_frame)

lemma fold_reset_identity:
  "name (heap (fold reset_player ps s) r) = name (heap s r)
   \<and> hatType (heap (fold reset_player ps s) r) = hatType (heap s r)
   \<and> hatColor (heap (fold reset_player ps s) r) = hatColor (heap s r)
   \<and> furColor (heap (fold reset_player ps s) r) = furColor (heap s r)
   \<and> coatColor (heap (fold reset_player ps s) r) = coatColor (heap s r)"
  by (induction ps arbitrary: s) (simp_all add: reset_player_identity)

lemma fold_reset_respawned:
  "(k, r) \<in> set ps \<Longrightarrow>
   respawned s (drawn s + 2 * length ps) (heap (fold reset_player ps s) r)"
proof (induction ps rule: rev_induct)
  case Nil
  then show ?case by simp
next
  case (snoc e ps)
  let ?t = "fold reset_player ps s"
  have d: "drawn ?t = drawn s + 2 * length ps" and rn: "random ?t = random s"
    using fold_reset_frame [of ps s] by simp_all
  show ?case
  proof (cases "r = snd e")
    case True
    then show ?thesis
      by (simp add: reset_player_self respawned_def d rn) (rule exI [of _ "drawn s + 2 * length ps"], simp)
  next
    case False
    with snoc.prems have "(k, r) \<in> set ps" by auto
    from snoc.IH [OF this] False show ?thesis
      by (auto simp: reset_player_other respawned_def)
  qed
qed

lemma resetGame_heap:
  "heap (resetGame s) = heap (fold reset_player (players s) (s\<lparr>gameInProgress := True\<rparr>))"
  "players (resetGame s) = players s" "gameInProgress (resetGame s)"
  "drawn (resetGame s) = drawn s + 2 * length (players s)"
  using fold_reset_frame [of "players s" "s\<lparr>gameInProgress := True\<rparr>"]
  by (simp_all add: resetGame_def Let_def emit_def)

lemma resetGame_respawned:
  assumes "(k, r) \<in> set (players s)"
  shows "respawned s (drawn (resetGame s)) (heap (resetGame s) r)"
proof -
  let ?s0 = "s\<lparr>gameInProgress := True\<rparr>"
  from assms have "(k, r) \<in> set (players ?s0)" by simp
  from fold_reset_respawned [OF this]
  have "respawned ?s0 (drawn ?s0 + 2 * length (players ?s0))
          (heap (fold reset_player (players ?s0) ?s0) r)" .
  then show ?thesis
    unfolding respawned_def resetGame_heap by simp
qed

lemma resetGame_identity:
  "name (heap (resetGame s) r) = name (heap s r)"
  "hatType (heap (resetGame s) r) = hatType (heap s r)"
  "hatColor (heap (resetGame s) r) = hatColor (heap s r)"
  "furColor (heap (resetGame s) r) = furColor (heap s r)"
  "coatColor (heap (resetGame s) r) = coatColor (heap s r)"
  using fold_reset_identity [of "players s" "s\<lparr>gameInProgress := True\<rparr>" r]
  unfolding resetGame_heap(1) by simp_all

lemma resetGame_session:
  "lookup s k = Some r \<Longrightarrow> session (resetGame s) k = Some (heap (resetGame s) r)"
  by (simp add: session_def lookup_def resetGame_heap(2))

text \<open>
  Claim C5. Whatever the number of sessions, \<^verbatim>\<open>resetGame\<close> keeps the roster (the
  connection ids and their session objects), and for every session it sets kills and
  deaths to 0 and hit points to 3, places it at height 2 with \<open>x\<close> and \<open>z\<close> computed from
  two fresh consecutive draws of the generator, and keeps the name, hat type, hat colour,
  fur colour and coat colour.
\<close>

theorem resetGame_resets_combat_fields:
  "players (resetGame s) = players s
   \<and> (session s k = Some p \<longrightarrow>
        (\<exists>q. session (resetGame s) k = Some q
           \<and> kills q = 0 \<and> deaths q = 0 \<and> hp q = 3 \<and> py q = 2
           \<and> (\<exists>i. drawn s \<le> i \<and> Suc i < drawn (resetGame s)
                  \<and> px q = spawn_coord (random s i) \<and> pz q = spawn_coord (random s (Suc i)))
           \<and> name q = name p \<and> hatType q = hatType p \<and> hatColor q = hatColor p
           \<and> furColor q = furColor p \<and> coatColor q = coatColor p))"
proof (intro conjI impI)
  show "players (resetGame s) = players s" by (rule resetGame_heap(2))
next
  assume "session s k = Some p"
  then obtain r where r: "lookup s k = Some r" and pr: "p = heap s r"
    by (auto simp: session_def)
  from r have "(k, r) \<in> set (players s)"
    by (auto simp: lookup_def dest: map_of_SomeD)
  from resetGame_respawned [OF this]
  have 1: "respawned s (drawn (resetGame s)) (heap (resetGame s) r)" .
  show "\<exists>q. session (resetGame s) k = Some q
           \<and> kills q = 0 \<and> deaths q = 0 \<and> hp q = 3 \<and> py q = 2
           \<and> (\<exists>i. drawn s \<le> i \<and> Suc i < drawn (resetGame s)
                  \<and> px q = spawn_coord (random s i) \<and> pz q = spawn_coord (random s (Suc i)))
           \<and> name q = name p \<and> hatType q = hatType p \<and> hatColor q = hatColor p
           \<and> furColor q = furColor p \<and> coatColor q = coatColor p"
  proof (rule exI [of _ "heap (resetGame s) r"], intro conjI)
    show "session (resetGame s) k = Some (heap (resetGame s) r)"
      by (rule resetGame_session [OF r])
  qed (use 1 in \<open>simp_all add: respawned_def MAX_HP_def pr resetGame_identity\<close>)
qed

lemma scored_facts:
  "map_option kills (session scored ''b'') = Some 1"
  "map_option deaths (session scored ''a'') = Some 1"
  "map_option hp (session scored ''a'') = Some 0"
  "session scored ''b'' = Some (heap scored (Suc 0))"
  "session scored ''a'' = Some (heap scored 0)"
  "name (heap scored 0) = ''Anonymous Rat''"
  by (simp_all add: scored_def arena_def eval_defs del: run_Nil run_Cons)

theorem resetGame_resets_combat_fields_witness:
  "map_option kills (session scored ''b'') = Some 1
   \<and> map_option deaths (session scored ''a'') = Some 1
   \<and> map_option hp (session scored ''a'') = Some 0
   \<and> map_option kills (session (resetGame scored) ''b'') = Some 0
   \<and> map_option deaths (session (resetGame scored) ''a'') = Some 0
   \<and> map_option hp (session (resetGame scored) ''a'') = Some 3
   \<and> map_option name (session (resetGame scored) ''a'') = Some ''Anonymous Rat''
   \<and> players (resetGame (init half)) = []"
proof -
  from resetGame_resets_combat_fields [of scored "''b''" "heap scored (Suc 0)"] scored_facts(4)
  obtain q where "session (resetGame scored) ''b'' = Some q" "kills q = 0"
    by blast
  then have b: "map_option kills (session (resetGame scored) ''b'') = Some 0"
    by simp
  from resetGame_resets_combat_fields [of scored "''a''" "heap scored 0"] scored_facts(5)
  obtain q where "session (resetGame scored) ''a'' = Some q" "deaths q = 0" "hp q = 3"
    "name q = name (heap scored 0)"
    by blast
  then have a: "map_option deaths (session (resetGame scored) ''a'') = Some 0"
    "map_option hp (session (resetGame scored) ''a'') = Some 3"
    "map_option name (session (resetGame scored) ''a'') = Some ''Anonymous Rat''"
    by (simp_all add: scored_facts(6))
  have e: "players (resetGame (init half)) = []"
    using resetGame_resets_combat_fields [of "init half"] by (simp add: init_def)
  show ?thesis using a b e scored_facts(1-3) by blast
qed

subsection \<open>Movement\<close>

text \<open>
  Claim C7 as stated fails: the session record has no mesh orientation. Two movement
  payloads that differ in the mesh orientation only leave the same store and roster.
\<close>

theorem updateMovement_mesh_not_stored_counterexample:
  "heap (updateMovement arena ''a'' still) = heap (updateMovement arena ''a'' turned)
   \<and> players (updateMovement arena ''a'' still) = players (updateMovement arena ''a'' turned)
   \<and> meshQy still \<noteq> meshQy turned"
  by (simp add: updateMovement_def arena_lookup modify_def emit_def still_def turned_def Let_def)

text \<open>
  Claim C7, as the code has it. For a connection with a session, \<^verbatim>\<open>updateMovement\<close>
  overwrites the position and the body orientation of that session with the payload's
  values, unvalidated, and changes no other session. The mesh orientation is not stored:
  it has no influence on the store. It is only relayed, in the \<^verbatim>\<open>playerMoved\<close>
  message sent to all other clients with the sender's id, the position and the body
  orientation; a missing mesh component is relayed as 0, 0, 0, 1 respectively.
\<close>

theorem updateMovement_stores_body_relays_mesh:
  assumes "lookup s sid = Some p"
  shows "heap (updateMovement s sid d) =
           (heap s)(p := (heap s p)\<lparr>px := mv_x d, py := mv_y d, pz := mv_z d,
                                    qx := mv_qx d, qy := mv_qy d, qz := mv_qz d, qw := mv_qw d\<rparr>)
     \<and> heap (updateMovement s sid (d\<lparr>meshQx := a, meshQy := b, meshQz := c, meshQw := e\<rparr>))
         = heap (updateMovement s sid d)
     \<and> players (updateMovement s sid d) = players s
     \<and> outbox (updateMovement s sid d) = outbox s @
         [(ToOthers sid, PlayerMoved \<lparr>mm_id = sid,
             mm_x = mv_x d, mm_y = mv_y d, mm_z = mv_z d,
             mm_qx = mv_qx d, mm_qy = mv_qy d, mm_qz = mv_qz d, mm_qw = mv_qw d,
             mm_meshQx = (case meshQx d of None \<Rightarrow> 0 | Some t \<Rightarrow> t),
             mm_meshQy = (case meshQy d of None \<Rightarrow> 0 | Some t \<Rightarrow> t),
             mm_meshQz = (case meshQz d of None \<Rightarrow> 0 | Some t \<Rightarrow> t),
             mm_meshQw = (case meshQw d of None \<Rightarrow> 1 | Some t \<Rightarrow> t)\<rparr>)]"
  using assms by (simp add: updateMovement_def modify_def emit_def Let_def nullish_def)

theorem updateMovement_stores_body_relays_mesh_witness:
  "lookup arena ''a'' = Some 0
   \<and> px (heap (updateMovement arena ''a'' turned) 0) = 0
   \<and> py (heap (updateMovement arena ''a'' turned) 0) = 2
   \<and> qw (heap (updateMovement arena ''a'' turned) 0) = 1
   \<and> players (updateMovement arena ''a'' turned) = players arena"
  using updateMovement_stores_body_relays_mesh [of arena "''a''" 0 turned]
  by (simp add: arena_lookup turned_def still_def)

subsection \<open>Join\<close>

text \<open>
  Claim C8 as stated fails on a whitespace-only name: the server keeps a name of two
  spaces as it is (the client trims the name before it sends it).
\<close>

theorem join_blank_name_counterexample:
  "map_option name (session (join (init half) ''a'' blank) ''a'') = Some ''  ''"
  by (simp add: blank_def eval_defs)

lemma lookup_join: "lookup (join s sid d) sid = Some (next_ref s)"
  by (simp add: join_def Let_def split_def lookup_def emit_def Math_random_def update_conv')

text \<open>
  Claim C8, as the code has it. For every state, connection id and payload, \<^verbatim>\<open>join\<close>
  leaves a session for that id with 3 hit points, no kills and no deaths, at height 2
  with \<open>x\<close> and \<open>z\<close> in \<open>[-50, 50)\<close> (the generator returning values in \<open>[0, 1)\<close>). The
  name is the default when the payload has no name or the empty name, and the supplied
  name otherwise; the appearance fields are the supplied ones, or their defaults.
\<close>

theorem join_creates_session:
  assumes "0 \<le> random s (drawn s)" and "random s (drawn s) < 1"
    and "0 \<le> random s (Suc (drawn s))" and "random s (Suc (drawn s)) < 1"
  shows "\<exists>p. session (join s sid d) sid = Some p
     \<and> hp p = 3 \<and> kills p = 0 \<and> deaths p = 0
     \<and> - 50 \<le> px p \<and> px p < 50 \<and> py p = 2 \<and> - 50 \<le> pz p \<and> pz p < 50
     \<and> name p = (case join_name d of None \<Rightarrow> ''Anonymous Rat''
                  | Some n \<Rightarrow> if n = [] then ''Anonymous Rat'' else n)
     \<and> hatType p = (case join_hatType d of None \<Rightarrow> ''fedora''
                  | Some t \<Rightarrow> if t = [] then ''fedora'' else t)
     \<and> hatColor p = (case join_hatColor d of None \<Rightarrow> 0xDC4A3C | Some c \<Rightarrow> c)
     \<and> furColor p = (case join_furColor d of None \<Rightarrow> 0xE8B84D | Some c \<Rightarrow> c)
     \<and> coatColor p = (case join_coatColor d of None \<Rightarrow> 0xBE4545 | Some c \<Rightarrow> c)"
  using assms
  by (simp add: session_def lookup_join)
    (simp add: join_def Let_def split_def emit_def Math_random_def MAX_HP_def spawn_coord_def
      or_default_def nullish_def)

theorem join_creates_session_witness:
  "0 \<le> random (init half) (drawn (init half)) \<and> random (init half) (drawn (init half)) < 1
   \<and> (\<exists>p. session (join (init half) ''a'' blank) ''a'' = Some p \<and> hp p = 3 \<and> px p = 0
          \<and> py p = 2 \<and> name p = ''  '')"
proof -
  have h: "0 \<le> random (init half) (drawn (init half))" "random (init half) (drawn (init half)) < 1"
    "0 \<le> random (init half) (Suc (drawn (init half)))" "random (init half) (Suc (drawn (init half))) < 1"
    by (simp_all add: init_def half_def)
  have p: "px (heap (join (init half) ''a'' blank) 0) = 0"
    by (simp add: blank_def eval_defs)
  from join_creates_session [OF h, of "''a''" blank] obtain p
    where "session (join (init half) ''a'' blank) ''a'' = Some p" "hp p = 3" "py p = 2"
      "name p = (case join_name blank of None \<Rightarrow> ''Anonymous Rat''
                  | Some n \<Rightarrow> if n = [] then ''Anonymous Rat'' else n)"
    by blast
  moreover from this have "px p = 0" using p lookup_join [of "init half" "''a''" blank]
    by (simp add: session_def init_def)
  ultimately show ?thesis using h by (simp add: blank_def anon_def)
qed

section \<open>Properties of the client\<close>

lemma dead_updateDeathRagdoll [simp]: "dead (updateDeathRagdoll slerp e) = dead e"
  by (simp add: updateDeathRagdoll_def copy_body_to_mesh_def Let_def
      split: death_phase.splits option.splits)

lemma dead_rat_update [simp]: "dead (rat_update slerp dt e) = dead e"
  by (simp add: rat_update_def)










end
